theory Spec2Isabelle
  imports Main "HOL-Library.Multiset" "HOL-Library.Sublist"
begin

section \<open>Channels, outcomes and goroutines\<close>

text \<open>
  A Go channel is modelled by the values it buffers, its capacity and whether it has been
  closed. \<open>make(chan T, n)\<close> gives an open, empty channel of capacity \<open>n\<close>.
  A send on a full channel and a receive on an empty open channel block; they are the
  guards of the steps below. Closing a closed channel panics.
\<close>

record 'a chan =
  buf :: "'a list"
  cap :: nat
  closed :: bool

definition make_chan :: "nat \<Rightarrow> 'a chan" where
  "make_chan n = \<lparr>buf = [], cap = n, closed = False\<rparr>"

definition chan_full :: "'a chan \<Rightarrow> bool" where
  "chan_full c = (cap c \<le> length (buf c))"

definition chan_push :: "'a \<Rightarrow> 'a chan \<Rightarrow> 'a chan" where
  "chan_push x c = c\<lparr>buf := buf c @ [x]\<rparr>"

definition chan_pop :: "'a chan \<Rightarrow> 'a chan" where
  "chan_pop c = c\<lparr>buf := tl (buf c)\<rparr>"

definition chan_close :: "'a chan \<Rightarrow> 'a chan" where
  "chan_close c = c\<lparr>closed := True\<rparr>"

text \<open>
  \<open>make\<close> with a capacity that is negative, or larger than the runtime can allocate
  for the element type, does not return: the runtime panics (\<open>cap out of range\<close>,
  \<open>size out of range\<close>). The largest capacity the runtime grants depends on the
  platform and on the element type, so it is a parameter: one bound for the slice
  \<open>items\<close> and one for the channel \<open>BatchWorkerCh\<close>, the two allocations whose
  capacity is data. Where memory runs out below the range check of the runtime, the
  process ends with a fatal error instead of the panic; the model does not tell the two
  apart. The allocations of a capacity written in the source (0, 1 and 100) and the
  \<open>go\<close> statements are taken to succeed.
\<close>

record runtime =
  max_slice_cap :: nat
  max_chan_cap :: nat

datatype panic = Panic string

definition make_slice :: "runtime \<Rightarrow> int \<Rightarrow> panic + nat" where
  "make_slice rt n =
     (if n < 0 \<or> int (max_slice_cap rt) < n then Inl (Panic ''makeslice: cap out of range'')
      else Inr (nat n))"

definition make_buffered :: "runtime \<Rightarrow> int \<Rightarrow> panic + 'a chan" where
  "make_buffered rt n =
     (if n < 0 \<or> int (max_chan_cap rt) < n then Inl (Panic ''makechan: size out of range'')
      else Inr (make_chan (nat n)))"

text \<open>
  The conversion \<open>int(x)\<close> to Go's 64-bit \<open>int\<close>, and the 32 bits in which
  \<open>sync.WaitGroup\<close> keeps its counter: a value outside the range wraps around.
\<close>

definition go_int :: "int \<Rightarrow> int" where
  "go_int x = (x + 2 ^ 63) mod 2 ^ 64 - 2 ^ 63"

definition wrap32 :: "int \<Rightarrow> int" where
  "wrap32 x = (x + 2 ^ 31) mod 2 ^ 32 - 2 ^ 31"

text \<open>
  What a sequential piece of code can do: run on to its next statement, stay parked on an
  operation that cannot complete in the state it finds (a receive with nothing to
  receive, a lock with no free permit), end the whole process (\<open>os.Exit\<close>), or panic.
  A function body that ends in \<open>Continue\<close> has returned to its caller.
\<close>

datatype 's outcome =
    Continue 's
  | Blocked 's
  | Exited int 's
  | Panicked string 's

definition and_then :: "'s outcome \<Rightarrow> ('s \<Rightarrow> 's outcome) \<Rightarrow> 's outcome" where
  "and_then r f = (case r of Continue s \<Rightarrow> f s | Blocked s \<Rightarrow> Blocked s
                   | Exited n s \<Rightarrow> Exited n s | Panicked m s \<Rightarrow> Panicked m s)"

fun returned :: "'s outcome \<Rightarrow> bool" where
  "returned (Continue s) = True"
| "returned (Blocked s) = False"
| "returned (Exited n s) = False"
| "returned (Panicked m s) = False"

fun final_state :: "'s outcome \<Rightarrow> 's" where
  "final_state (Continue s) = s"
| "final_state (Blocked s) = s"
| "final_state (Exited n s) = s"
| "final_state (Panicked m s) = s"

text \<open>The goroutines the two source files start with \<open>go\<close>.\<close>

datatype goroutine =
    G_WatchProducer
  | G_StartConsumer
  | G_ReadItems
  | G_ConsumerBatch
  | G_WorkerFunc nat
  | G_CheckRemainingItems
  | G_StopProducer
  | G_StopConsumer

datatype os_signal = SIGINT | SIGTERM

section \<open>The data of batch.go and consumer.go\<close>

text \<open>
  \<open>BatchItems\<close> is built in \<open>ReadItems\<close> as
  \<open>&BatchItems{Id: b.Id, Item: item}\<close>; a batch is a \<open>[]BatchItems\<close>. An item is
  an \<open>interface{}\<close> value: \<open>nil\<close> (\<open>None\<close>) or a value.
\<close>

type_synonym 'a iface = "'a option"

record 'a BatchItems =
  bi_Id :: int
  bi_Item :: 'a

type_synonym 'a batch = "'a BatchItems list"

text \<open>
  The producer is configured by the options of \<open>NewBatch\<close>. Its struct is not part of
  the two files; \<open>batch.go\<close> reads \<open>p.MaxItems\<close> (as a slice capacity, and
  converted with \<open>int(...)\<close> for the semaphore) and documents \<open>MaxWait\<close> (a
  duration, in nanoseconds). The integer type of \<open>MaxItems\<close> is not given in the two
  files, so the field holds the value as an integer, whatever that type is: a negative
  value is possible only if the type is signed.
\<close>

record BatchProducer =
  MaxItems :: int
  MaxWait :: int

text \<open>
  The package-level variables, shared by every \<open>Batch\<close> of the process: the slice
  \<open>items\<close> with the capacity of its backing array, and \<open>DefaultWorkerPool\<close>
  (consumer.go, lines 12 to 14), an exported variable of type \<open>int\<close> that any code of
  the process can assign.
\<close>

record 'a globals =
  items :: "'a batch"
  items_cap :: nat
  DefaultWorkerPool :: int

text \<open>
  The variables when the program starts: \<open>var DefaultWorkerPool = 10\<close>, and
  \<open>items\<close> (declared beside the producer, outside the two files) without an element.
\<close>

definition package_init :: "'a globals" where
  "package_init = \<lparr>items = [], items_cap = 0, DefaultWorkerPool = 10\<rparr>"

text \<open>
  \<open>NewBatch\<close> calls each option as \<open>opt(p)\<close> with the pointer to the producer.
  An option is a function value supplied by the caller: it can write the fields of the
  producer and, like any code of the process, the package-level variables.
\<close>

type_synonym 'a BatchOptions = "BatchProducer \<times> 'a globals \<Rightarrow> BatchProducer \<times> 'a globals"

text \<open>
  Modelled from the spec: the two options that the comment on \<open>NewBatch\<close> speaks of
  (their code is not in the two files), each setting its field of the producer, as the
  function literal \<open>func(p *BatchProducer) { p.MaxItems = n }\<close> of a caller does.
\<close>

definition WithMaxItems :: "int \<Rightarrow> 'a BatchOptions" where
  "WithMaxItems n = (\<lambda>(p, g). (p\<lparr>MaxItems := n\<rparr>, g))"

definition WithMaxWait :: "int \<Rightarrow> 'a BatchOptions" where
  "WithMaxWait d = (\<lambda>(p, g). (p\<lparr>MaxWait := d\<rparr>, g))"

text \<open>
  Modelled from the spec: the semaphore (its code is not in the two files). It has a
  fixed number of permits; \<open>Lock\<close> takes one and blocks while none is free,
  \<open>Unlock\<close> gives one back.
\<close>

record semaphore =
  permits :: int
  held :: int

definition NewSemaphore :: "int \<Rightarrow> semaphore" where
  "NewSemaphore n = \<lparr>permits = n, held = 0\<rparr>"

definition sem_can_lock :: "semaphore \<Rightarrow> bool" where
  "sem_can_lock s = (held s < permits s)"

definition sem_lock :: "semaphore \<Rightarrow> semaphore" where
  "sem_lock s = s\<lparr>held := held s + 1\<rparr>"

definition sem_unlock :: "semaphore \<Rightarrow> semaphore" where
  "sem_unlock s = s\<lparr>held := held s - 1\<rparr>"

text \<open>
  The struct \<open>BatchConsumer\<close> with the two channels of its \<open>BatchSupply\<close> written
  as fields of their own. A response channel travelling on \<open>BatchSupplyCh\<close> is named
  by the number of the request that made it. \<open>Workerline\<close> is the counter of the
  wait group.
\<close>

record 'b BatchConsumer =
  ConsumerCh :: "'b chan"
  BatchWorkerCh :: "'b chan"
  BatchSupplyCh :: "nat chan"
  ClientSupplyCh :: "'b chan"
  Workerline :: int
  TerminateCh :: "os_signal chan"
  Quit :: "bool chan"

text \<open>
  \<open>NewBatchConsumer\<close> reads \<open>DefaultWorkerPool\<close> for the capacity of
  \<open>BatchWorkerCh\<close>; \<open>make\<close> panics when the value is out of range.
\<close>

definition NewBatchConsumer :: "runtime \<Rightarrow> 'a globals \<Rightarrow> panic + 'b BatchConsumer" where
  "NewBatchConsumer rt g =
     (case make_buffered rt (DefaultWorkerPool g) of
        Inl e \<Rightarrow> Inl e
      | Inr workerCh \<Rightarrow>
          Inr \<lparr>ConsumerCh = make_chan 1,
               BatchWorkerCh = workerCh,
               BatchSupplyCh = make_chan 100,
               ClientSupplyCh = make_chan 1,
               Workerline = 0,
               TerminateCh = make_chan 1,
               Quit = make_chan 1\<rparr>)"

text \<open>
  The struct \<open>Batch\<close>. \<open>Item\<close> is an unbuffered channel; \<open>NewBatch\<close> leaves
  \<open>Id\<close> at its zero value.
\<close>

record 'a Batch =
  Item :: "'a chan"
  Batch_Id :: int
  Semaphore :: semaphore
  Producer :: BatchProducer
  Consumer :: "'a batch BatchConsumer"

section \<open>NewBatch and StartBachProcessing (batch.go, lines 20 to 52)\<close>

text \<open>
  \<open>NewBatch\<close> builds the consumer, then the producer, applies the options in order,
  builds the semaphore from \<open>int(p.MaxItems)\<close> and assigns a fresh empty slice of
  capacity \<open>p.MaxItems\<close> to the package-level \<open>items\<close>. Its only result is
  \<open>*Batch\<close>: it has no error result, and it ends otherwise only where one of the
  two \<open>make\<close> calls panics. The producer that \<open>NewBatchProducer\<close> returns (its
  code is not in the two files) is the parameter \<open>p0\<close>.
\<close>

definition apply_opts ::
  "'a BatchOptions list \<Rightarrow> BatchProducer \<times> 'a globals \<Rightarrow> BatchProducer \<times> 'a globals" where
  "apply_opts opts pg = foldl (\<lambda>pg opt. opt pg) pg opts"

definition NewBatch ::
  "runtime \<Rightarrow> 'a globals \<Rightarrow> BatchProducer \<Rightarrow> 'a BatchOptions list
     \<Rightarrow> panic + ('a Batch \<times> 'a globals)" where
  "NewBatch rt g p0 opts =
     (case NewBatchConsumer rt g of
        Inl e \<Rightarrow> Inl e
      | Inr c \<Rightarrow>
          (let (p, g1) = apply_opts opts (p0, g)
           in case make_slice rt (MaxItems p) of
                Inl e \<Rightarrow> Inl e
              | Inr n \<Rightarrow>
                  Inr (\<lparr>Item = make_chan 0,
                        Batch_Id = 0,
                        Semaphore = NewSemaphore (go_int (MaxItems p)),
                        Producer = p,
                        Consumer = c\<rparr>,
                       g1\<lparr>items := [], items_cap := n\<rparr>)))"

text \<open>\<open>StartBachProcessing\<close> starts three goroutines, whatever the configuration.\<close>

definition StartBachProcessing :: "'a Batch \<Rightarrow> goroutine list" where
  "StartBachProcessing b = [G_WatchProducer, G_StartConsumer, G_ReadItems]"

section \<open>StartConsumer (consumer.go, lines 88 to 104)\<close>

text \<open>
  The consumer object together with the goroutines that work on it: the routing loop
  \<open>ConsumerBatch\<close>, the workers \<open>WorkerFunc\<close> (the worker of index \<open>i\<close> is
  position \<open>i\<close> of \<open>workers\<close>), and the requests \<open>GetBatchSupply\<close> that the
  workers start. \<open>ctx_done\<close> says that \<open>cancel()\<close> was called, \<open>notified\<close>
  that \<open>signal.Notify\<close> registered \<open>TerminateCh\<close>, \<open>waited\<close> that
  \<open>Workerline.Wait()\<close> was reached, \<open>crashed\<close> that a goroutine panicked (which
  ends the process), and \<open>received\<close> lists the batches the client took from
  \<open>ClientSupplyCh\<close>.
\<close>

datatype 'b router_pc = R_NotStarted | R_Select | R_Send 'b | R_Returned

datatype 'b worker_pc = W_Range | W_Select 'b | W_Offer nat 'b | W_Done

datatype 'b request_pc = Q_Start | Q_Await | Q_Forward 'b | Q_Done

record 'b consumer_sys = "'b BatchConsumer" +
  router :: "'b router_pc"
  workers :: "'b worker_pc list"
  requests :: "'b request_pc list"
  started :: "goroutine list"
  ctx_done :: bool
  notified :: bool
  waited :: bool
  crashed :: bool
  received :: "'b list"

definition sys_of :: "'b BatchConsumer \<Rightarrow> 'b consumer_sys" where
  "sys_of c =
     \<lparr>ConsumerCh = ConsumerCh c,
      BatchWorkerCh = BatchWorkerCh c,
      BatchSupplyCh = BatchSupplyCh c,
      ClientSupplyCh = ClientSupplyCh c,
      Workerline = Workerline c,
      TerminateCh = TerminateCh c,
      Quit = Quit c,
      router = R_NotStarted,
      workers = [],
      requests = [],
      started = [],
      ctx_done = False,
      notified = False,
      waited = False,
      crashed = False,
      received = []\<rparr>"

text \<open>The statements of \<open>StartConsumer\<close>, one definition each, in source order.\<close>

definition go_ConsumerBatch :: "'b consumer_sys \<Rightarrow> 'b consumer_sys outcome" where
  "go_ConsumerBatch s =
     Continue (s\<lparr>router := R_Select, started := started s @ [G_ConsumerBatch]\<rparr>)"

definition Workerline_Add :: "int \<Rightarrow> 'b consumer_sys \<Rightarrow> 'b consumer_sys outcome" where
  "Workerline_Add n s =
     (if wrap32 (Workerline s + n) < 0 then Panicked ''sync: negative WaitGroup counter'' s
      else Continue (s\<lparr>Workerline := wrap32 (Workerline s + n)\<rparr>))"

definition go_WorkerFunc :: "'b consumer_sys \<Rightarrow> nat \<Rightarrow> 'b consumer_sys" where
  "go_WorkerFunc s i =
     s\<lparr>workers := workers s @ [W_Range], started := started s @ [G_WorkerFunc i]\<rparr>"

text \<open>
  The loop \<open>for i := 0; i < DefaultWorkerPool; i++\<close>: no round when the variable is
  zero or negative.
\<close>

definition spawn_workers :: "'a globals \<Rightarrow> 'b consumer_sys \<Rightarrow> 'b consumer_sys outcome" where
  "spawn_workers g s = Continue (foldl go_WorkerFunc s [0..<nat (DefaultWorkerPool g)])"

definition signal_Notify :: "'b consumer_sys \<Rightarrow> 'b consumer_sys outcome" where
  "signal_Notify s = Continue (s\<lparr>notified := True\<rparr>)"

text \<open>
  \<open><-c.TerminateCh\<close>. The parameter \<open>sig\<close> is the signal the operating system
  delivers after the registration, if any; a delivery to a full channel is dropped.
  Without a value in the channel the receive parks.
\<close>

definition deliver :: "os_signal option \<Rightarrow> 'b consumer_sys \<Rightarrow> 'b consumer_sys" where
  "deliver sig s =
     (case sig of
        None \<Rightarrow> s
      | Some x \<Rightarrow>
          if notified s \<and> \<not> chan_full (TerminateCh s)
          then s\<lparr>TerminateCh := chan_push x (TerminateCh s)\<rparr> else s)"

definition recv_TerminateCh ::
  "os_signal option \<Rightarrow> 'b consumer_sys \<Rightarrow> 'b consumer_sys outcome" where
  "recv_TerminateCh sig s =
     (let s1 = deliver sig s
      in if buf (TerminateCh s1) = [] then Blocked s1
         else Continue (s1\<lparr>TerminateCh := chan_pop (TerminateCh s1)\<rparr>))"

definition cancel :: "'b consumer_sys \<Rightarrow> 'b consumer_sys outcome" where
  "cancel s = Continue (s\<lparr>ctx_done := True\<rparr>)"

definition os_Exit :: "int \<Rightarrow> 'b consumer_sys \<Rightarrow> 'b consumer_sys outcome" where
  "os_Exit code s = Exited code s"

text \<open>
  \<open>Workerline.Wait()\<close> returns once the counter is zero; until a worker calls
  \<open>Done\<close> the caller stays parked.
\<close>

definition Workerline_Wait :: "'b consumer_sys \<Rightarrow> 'b consumer_sys outcome" where
  "Workerline_Wait s =
     (if Workerline s = 0 then Continue (s\<lparr>waited := True\<rparr>)
      else Blocked (s\<lparr>waited := True\<rparr>))"

text \<open>
  \<open>StartConsumer\<close>. It reads the package-level \<open>DefaultWorkerPool\<close>, here from
  \<open>g\<close>, the variables as they are while it runs.
\<close>

definition StartConsumer ::
  "'a globals \<Rightarrow> os_signal option \<Rightarrow> 'b consumer_sys \<Rightarrow> 'b consumer_sys outcome" where
  "StartConsumer g sig s =
     and_then (go_ConsumerBatch s) (\<lambda>s.
     and_then (Workerline_Add (DefaultWorkerPool g) s) (\<lambda>s.
     and_then (spawn_workers g s) (\<lambda>s.
     and_then (signal_Notify s) (\<lambda>s.
     and_then (recv_TerminateCh sig s) (\<lambda>s.
     and_then (cancel s) (\<lambda>s.
     and_then (os_Exit 0 s) Workerline_Wait))))))"

section \<open>Stop and Close (batch.go, lines 75 to 110)\<close>

text \<open>
  What \<open>Close\<close> touches: the package-level \<open>items\<close> (read for the log line, and
  flushed by the drain), the consumer's \<open>ConsumerCh\<close> (the flush callback
  \<open>ConsumerFunc\<close> sends the batch there), the channel \<open>b.Item\<close> (closed or not),
  the semaphore, the goroutines started with \<open>go\<close>, and the log.
\<close>

record 'a closing =
  cl_items :: "'a batch"
  cl_ConsumerCh :: "'a batch chan"
  cl_Item_closed :: bool
  cl_Semaphore :: semaphore
  cl_started :: "goroutine list"
  cl_log :: "(string \<times> nat) list"

definition closing_of :: "'a Batch \<Rightarrow> 'a globals \<Rightarrow> 'a closing" where
  "closing_of b g =
     \<lparr>cl_items = items g,
      cl_ConsumerCh = ConsumerCh (Consumer b),
      cl_Item_closed = closed (Item b),
      cl_Semaphore = Semaphore b,
      cl_started = [],
      cl_log = []\<rparr>"

definition log_Warn :: "string \<Rightarrow> 'a closing \<Rightarrow> 'a closing" where
  "log_Warn msg s = s\<lparr>cl_log := cl_log s @ [(msg, length (cl_items s))]\<rparr>"

text \<open>
  Modelled from the spec: \<open>CheckRemainingItems(done)\<close> (the producer's code is not in
  the two files). It reports, then flushes whatever items remain through the flush
  callback, which is \<open>ConsumerFunc\<close> (\<open>c.ConsumerCh <- items\<close>, consumer.go line
  109), and signals completion once flushed. The result pairs the state it leaves with
  the number of values it sends on \<open>done\<close>: none while the flush is stuck on a full
  \<open>ConsumerCh\<close>.
\<close>

definition CheckRemainingItems :: "'a closing \<Rightarrow> 'a closing \<times> nat" where
  "CheckRemainingItems s =
     (let s1 = log_Warn ''CheckRemainingItems'' s
      in if cl_items s1 = [] then (s1, 1)
         else if chan_full (cl_ConsumerCh s1) then (s1, 0)
         else (s1\<lparr>cl_ConsumerCh := chan_push (cl_items s1) (cl_ConsumerCh s1),
                  cl_items := []\<rparr>, 1))"

definition Semaphore_Lock :: "'a closing \<Rightarrow> 'a closing outcome" where
  "Semaphore_Lock s =
     (if sem_can_lock (cl_Semaphore s)
      then Continue (s\<lparr>cl_Semaphore := sem_lock (cl_Semaphore s)\<rparr>)
      else Blocked s)"

definition Semaphore_Unlock :: "'a closing \<Rightarrow> 'a closing outcome" where
  "Semaphore_Unlock s = Continue (s\<lparr>cl_Semaphore := sem_unlock (cl_Semaphore s)\<rparr>)"

text \<open>\<open>Stop\<close> starts \<open>StopProducer\<close> and \<open>StopConsumer\<close> and returns.\<close>

definition Stop :: "'a closing \<Rightarrow> 'a closing outcome" where
  "Stop s = Continue (s\<lparr>cl_started := cl_started s @ [G_StopProducer, G_StopConsumer]\<rparr>)"

text \<open>\<open>close(b.Item)\<close>: closing a closed channel panics.\<close>

definition close_Item :: "'a closing \<Rightarrow> 'a closing outcome" where
  "close_Item s =
     (if cl_Item_closed s then Panicked ''close of closed channel'' s
      else Continue (s\<lparr>cl_Item_closed := True\<rparr>))"

text \<open>
  The loop \<open>for { select { case <-done: ... } }\<close>. Its only case receives from
  \<open>done\<close>, so it makes one round per value sent on \<open>done\<close>; the argument counts
  the values still to come. With none left the \<open>select\<close> parks. The loop has no
  \<open>break\<close> and no \<open>return\<close>.
\<close>

primrec Close_loop :: "nat \<Rightarrow> 'a closing \<Rightarrow> 'a closing outcome" where
  "Close_loop 0 s = Blocked s"
| "Close_loop (Suc n) s =
     and_then (Continue (log_Warn ''Done'' s)) (\<lambda>s.
     and_then (Semaphore_Lock s) (\<lambda>s.
     and_then (Stop s) (\<lambda>s.
     and_then (close_Item s) (\<lambda>s.
     and_then (Semaphore_Unlock s) (Close_loop n)))))"

text \<open>
  \<open>Close\<close> up to its loop: the log line and \<open>go b.Producer.CheckRemainingItems(done)\<close>.
\<close>

definition Close_entry :: "'a closing \<Rightarrow> 'a closing" where
  "Close_entry s =
     (let s1 = log_Warn ''Close'' s
      in s1\<lparr>cl_started := cl_started s1 @ [G_CheckRemainingItems]\<rparr>)"

text \<open>
  \<open>Close\<close>. The goroutine it starts is the parameter \<open>drain\<close>: from the state at
  its start it gives the state its work leaves and the number of values it sends on
  \<open>done\<close>. The channel \<open>done\<close> is local to the call and unbuffered, so what the
  goroutine does before its send on \<open>done\<close> has happened when \<open>Close\<close>
  receives. After the loop the function has no statement: it has no way to return.
\<close>

definition Close :: "('a closing \<Rightarrow> 'a closing \<times> nat) \<Rightarrow> 'a closing \<Rightarrow> 'a closing outcome" where
  "Close drain s = (let (s3, n) = drain (Close_entry s) in Close_loop n s3)"

section \<open>ReadItems (batch.go, lines 57 to 73)\<close>

text \<open>
  \<open>ReadItems\<close> receives an item from \<open>b.Item\<close>, increments \<open>b.Id\<close>, starts a
  goroutine that is handed the item as its argument, and sleeps. The goroutine evaluates
  \<open>&BatchItems{Id: b.Id, Item: item}\<close>, reading \<open>b.Id\<close> through the shared
  pointer \<open>b\<close> at the moment it runs, and then sends the value on the unbuffered
  channel \<open>b.Producer.Watcher\<close>.

  The state: the items offered on \<open>b.Item\<close> by senders and not yet received (oldest first),
  whether \<open>b.Item\<close> has been closed, \<open>b.Id\<close>, one entry per forwarding goroutine,
  and what the producer has received from \<open>Watcher\<close>, in order of receipt.
\<close>

datatype 'a forwarder = F_Spawned "'a iface" | F_Sending "'a iface BatchItems" | F_Done

record 'a ingest =
  offered :: "'a iface list"
  ri_Item_closed :: bool
  ri_Id :: int
  forwarders :: "'a forwarder list"
  Watcher_received :: "'a iface batch"

definition ingest_init :: "'a iface list \<Rightarrow> 'a ingest" where
  "ingest_init xs =
     \<lparr>offered = xs, ri_Item_closed = False, ri_Id = 0, forwarders = [],
      Watcher_received = []\<rparr>"

text \<open>\<open>b.Id++\<close> on Go's 64-bit \<open>int\<close>, which wraps around.\<close>

definition next_Id :: "int \<Rightarrow> int" where
  "next_Id i = (if i = 2 ^ 63 - 1 then - (2 ^ 63) else i + 1)"

text \<open>The body of the \<open>case\<close>: the increment and the \<open>go\<close> statement.\<close>

definition go_forward :: "'a iface \<Rightarrow> 'a ingest \<Rightarrow> 'a ingest" where
  "go_forward item s =
     s\<lparr>ri_Id := next_Id (ri_Id s), forwarders := forwarders s @ [F_Spawned item]\<rparr>"

text \<open>
  The steps. \<open>Receive\<close> is one round of the loop up to the \<open>go\<close> statement: it
  takes the oldest offered item, or \<open>nil\<close> once the channel is closed, and parks on
  an open channel with nothing offered. \<open>Evaluate k\<close> is goroutine \<open>k\<close> building
  its \<open>BatchItems\<close>; \<open>Send k\<close> is the producer receiving that value from
  \<open>Watcher\<close>. A step that cannot be taken in the state gives \<open>None\<close>. Go orders
  nothing between the goroutines beyond the channel operations (\<open>time.Sleep\<close> is not
  a synchronisation), so every list of steps that can be taken is a run of the program.
\<close>

datatype ingest_action = Receive | Evaluate nat | Send nat

fun ReadItems_step :: "ingest_action \<Rightarrow> 'a ingest \<Rightarrow> 'a ingest option" where
  "ReadItems_step Receive s =
     (case offered s of
        [] \<Rightarrow> if ri_Item_closed s then Some (go_forward None s) else None
      | item # rest \<Rightarrow> Some (go_forward item (s\<lparr>offered := rest\<rparr>)))"
| "ReadItems_step (Evaluate k) s =
     (if k < length (forwarders s) then
        (case forwarders s ! k of
           F_Spawned item \<Rightarrow>
             Some (s\<lparr>forwarders :=
                       (forwarders s)[k := F_Sending \<lparr>bi_Id = ri_Id s, bi_Item = item\<rparr>]\<rparr>)
         | F_Sending v \<Rightarrow> None
         | F_Done \<Rightarrow> None)
      else None)"
| "ReadItems_step (Send k) s =
     (if k < length (forwarders s) then
        (case forwarders s ! k of
           F_Spawned item \<Rightarrow> None
         | F_Sending v \<Rightarrow>
             Some (s\<lparr>forwarders := (forwarders s)[k := F_Done],
                     Watcher_received := Watcher_received s @ [v]\<rparr>)
         | F_Done \<Rightarrow> None)
      else None)"

fun run_ingest :: "ingest_action list \<Rightarrow> 'a ingest \<Rightarrow> 'a ingest option" where
  "run_ingest [] s = Some s"
| "run_ingest (a # as) s =
     (case ReadItems_step a s of None \<Rightarrow> None | Some s' \<Rightarrow> run_ingest as s')"





section \<open>ConsumerFunc, ConsumerBatch and WorkerFunc (consumer.go, lines 106 to 156)\<close>

text \<open>
  The goroutines of the consumer as one system whose steps interleave. Each step is one
  channel operation of the source together with the local statements that follow it:

  \<^item> \<open>Accept b\<close>: \<open>ConsumerFunc(b)\<close>, the send \<open>c.ConsumerCh <- items\<close>.
  \<^item> \<open>Route_Receive\<close>, \<open>Route_Cancel\<close>, \<open>Route_Quit\<close>: the three cases of the
    \<open>select\<close> in \<open>ConsumerBatch\<close>. When several are ready, Go chooses one of them
    at random, so each of them is a step of its own. The last two close
    \<open>BatchWorkerCh\<close> and return.
  \<^item> \<open>Route_Send\<close>: \<open>c.BatchWorkerCh <- batchItems\<close>.
  \<^item> \<open>Cancel\<close>: \<open>cancel()\<close> in \<open>StartConsumer\<close>.
    \<open>Stop_Consumer\<close>: \<open>c.Quit <- true\<close> in \<open>StopConsumer\<close>.
  \<^item> \<open>Worker_Claim w\<close>: worker \<open>w\<close> receives a batch in its \<open>range\<close> loop and
    starts \<open>GetBatchSupply\<close>. \<open>Worker_Exit w\<close>: the \<open>range\<close> loop ends on the
    closed and empty channel, and the deferred \<open>Workerline.Done()\<close> runs (it panics
    when the counter would become negative).
  \<^item> \<open>Worker_Pick w\<close>: \<open>supplyCh := <-c.Supply.BatchSupplyCh\<close>.
    \<open>Handoff w\<close>: \<open>supplyCh <- batch\<close>, a rendezvous with the request that waits
    on that response channel.
  \<^item> \<open>Client_Receive\<close>: the client takes a batch from \<open>ClientSupplyCh\<close>.

  Modelled from the spec: \<open>GetBatchSupply\<close> (its code is not in the two files). After
  the spec's rendezvous and the comments on \<open>BatchSupply\<close> in consumer.go, a request
  makes a private response channel and offers it on \<open>BatchSupplyCh\<close>
  (\<open>Request_Advertise r\<close>), waits for a batch on it, and sends that batch on
  \<open>ClientSupplyCh\<close> (\<open>Request_Supply r\<close>).

  A send on a closed channel and a close of a closed channel panic; a panic ends the
  process, after which no step is taken.
\<close>

datatype 'b action =
    Accept 'b
  | Route_Receive
  | Route_Send
  | Cancel
  | Route_Cancel
  | Stop_Consumer
  | Route_Quit
  | Worker_Claim nat
  | Worker_Exit nat
  | Request_Advertise nat
  | Worker_Pick nat
  | Handoff nat
  | Request_Supply nat
  | Client_Receive

definition close_BatchWorkerCh :: "'b consumer_sys \<Rightarrow> 'b consumer_sys" where
  "close_BatchWorkerCh s =
     (if closed (BatchWorkerCh s) then s\<lparr>crashed := True\<rparr>
      else s\<lparr>BatchWorkerCh := chan_close (BatchWorkerCh s), router := R_Returned\<rparr>)"

fun consumer_action :: "'b action \<Rightarrow> 'b consumer_sys \<Rightarrow> 'b consumer_sys option" where
  "consumer_action (Accept b) s =
     (if closed (ConsumerCh s) then Some (s\<lparr>crashed := True\<rparr>)
      else if chan_full (ConsumerCh s) then None
      else Some (s\<lparr>ConsumerCh := chan_push b (ConsumerCh s)\<rparr>))"
| "consumer_action Route_Receive s =
     (case (router s, buf (ConsumerCh s)) of
        (R_Select, b # rest) \<Rightarrow>
          Some (s\<lparr>ConsumerCh := chan_pop (ConsumerCh s), router := R_Send b\<rparr>)
      | _ \<Rightarrow> None)"
| "consumer_action Route_Send s =
     (case router s of
        R_Send b \<Rightarrow>
          if closed (BatchWorkerCh s) then Some (s\<lparr>crashed := True\<rparr>)
          else if chan_full (BatchWorkerCh s) then None
          else Some (s\<lparr>BatchWorkerCh := chan_push b (BatchWorkerCh s), router := R_Select\<rparr>)
      | _ \<Rightarrow> None)"
| "consumer_action Cancel s = Some (s\<lparr>ctx_done := True\<rparr>)"
| "consumer_action Route_Cancel s =
     (case router s of
        R_Select \<Rightarrow> if ctx_done s then Some (close_BatchWorkerCh s) else None
      | _ \<Rightarrow> None)"
| "consumer_action Stop_Consumer s =
     (if closed (Quit s) then Some (s\<lparr>crashed := True\<rparr>)
      else if chan_full (Quit s) then None
      else Some (s\<lparr>Quit := chan_push True (Quit s)\<rparr>))"
| "consumer_action Route_Quit s =
     (case (router s, buf (Quit s)) of
        (R_Select, q # rest) \<Rightarrow> Some (close_BatchWorkerCh (s\<lparr>Quit := chan_pop (Quit s)\<rparr>))
      | _ \<Rightarrow> None)"
| "consumer_action (Worker_Claim w) s =
     (if w < length (workers s) then
        (case (workers s ! w, buf (BatchWorkerCh s)) of
           (W_Range, b # rest) \<Rightarrow>
             Some (s\<lparr>BatchWorkerCh := chan_pop (BatchWorkerCh s),
                     workers := (workers s)[w := W_Select b],
                     requests := requests s @ [Q_Start]\<rparr>)
         | _ \<Rightarrow> None)
      else None)"
| "consumer_action (Worker_Exit w) s =
     (if w < length (workers s) then
        (case (workers s ! w, buf (BatchWorkerCh s)) of
           (W_Range, []) \<Rightarrow>
             if \<not> closed (BatchWorkerCh s) then None
             else if Workerline s - 1 < 0 then Some (s\<lparr>crashed := True\<rparr>)
             else Some (s\<lparr>workers := (workers s)[w := W_Done],
                          Workerline := Workerline s - 1\<rparr>)
         | _ \<Rightarrow> None)
      else None)"
| "consumer_action (Request_Advertise r) s =
     (if r < length (requests s) then
        (case requests s ! r of
           Q_Start \<Rightarrow>
             if chan_full (BatchSupplyCh s) then None
             else Some (s\<lparr>BatchSupplyCh := chan_push r (BatchSupplyCh s),
                          requests := (requests s)[r := Q_Await]\<rparr>)
         | _ \<Rightarrow> None)
      else None)"
| "consumer_action (Worker_Pick w) s =
     (if w < length (workers s) then
        (case (workers s ! w, buf (BatchSupplyCh s)) of
           (W_Select b, r # rest) \<Rightarrow>
             Some (s\<lparr>BatchSupplyCh := chan_pop (BatchSupplyCh s),
                     workers := (workers s)[w := W_Offer r b]\<rparr>)
         | _ \<Rightarrow> None)
      else None)"
| "consumer_action (Handoff w) s =
     (if w < length (workers s) then
        (case workers s ! w of
           W_Offer r b \<Rightarrow>
             if r < length (requests s) then
               (case requests s ! r of
                  Q_Await \<Rightarrow>
                    Some (s\<lparr>workers := (workers s)[w := W_Range],
                            requests := (requests s)[r := Q_Forward b]\<rparr>)
                | _ \<Rightarrow> None)
             else None
         | _ \<Rightarrow> None)
      else None)"
| "consumer_action (Request_Supply r) s =
     (if r < length (requests s) then
        (case requests s ! r of
           Q_Forward b \<Rightarrow>
             if chan_full (ClientSupplyCh s) then None
             else Some (s\<lparr>ClientSupplyCh := chan_push b (ClientSupplyCh s),
                          requests := (requests s)[r := Q_Done]\<rparr>)
         | _ \<Rightarrow> None)
      else None)"
| "consumer_action Client_Receive s =
     (case buf (ClientSupplyCh s) of
        [] \<Rightarrow> None
      | b # rest \<Rightarrow>
          Some (s\<lparr>ClientSupplyCh := chan_pop (ClientSupplyCh s),
                  received := received s @ [b]\<rparr>))"

definition consumer_step :: "'b action \<Rightarrow> 'b consumer_sys \<Rightarrow> 'b consumer_sys option" where
  "consumer_step a s = (if crashed s then None else consumer_action a s)"

fun run_consumer :: "'b action list \<Rightarrow> 'b consumer_sys \<Rightarrow> 'b consumer_sys option" where
  "run_consumer [] s = Some s"
| "run_consumer (a # as) s =
     (case consumer_step a s of None \<Rightarrow> None | Some s' \<Rightarrow> run_consumer as s')"


text \<open>
  Where a batch can be: in a channel, held by the routing loop, by a worker or by a
  request, or with the client. \<open>in_flight\<close> collects them all, with multiplicity.
\<close>

fun router_holds :: "'b router_pc \<Rightarrow> 'b multiset" where
  "router_holds (R_Send b) = {#b#}"
| "router_holds R_NotStarted = {#}"
| "router_holds R_Select = {#}"
| "router_holds R_Returned = {#}"

fun worker_holds :: "'b worker_pc \<Rightarrow> 'b multiset" where
  "worker_holds (W_Select b) = {#b#}"
| "worker_holds (W_Offer r b) = {#b#}"
| "worker_holds W_Range = {#}"
| "worker_holds W_Done = {#}"

fun request_holds :: "'b request_pc \<Rightarrow> 'b multiset" where
  "request_holds (Q_Forward b) = {#b#}"
| "request_holds Q_Start = {#}"
| "request_holds Q_Await = {#}"
| "request_holds Q_Done = {#}"

definition in_flight :: "'b consumer_sys \<Rightarrow> 'b multiset" where
  "in_flight s =
     mset (buf (ConsumerCh s)) + router_holds (router s) + mset (buf (BatchWorkerCh s))
     + sum_list (map worker_holds (workers s)) + sum_list (map request_holds (requests s))
     + mset (buf (ClientSupplyCh s)) + mset (received s)"

text \<open>The part of it that lies behind the routing loop.\<close>

definition downstream :: "'b consumer_sys \<Rightarrow> 'b multiset" where
  "downstream s =
     mset (buf (BatchWorkerCh s))
     + sum_list (map worker_holds (workers s)) + sum_list (map request_holds (requests s))
     + mset (buf (ClientSupplyCh s)) + mset (received s)"


text \<open>
  The consumer as \<open>StartConsumer\<close> leaves it while it waits for a signal, when
  \<open>DefaultWorkerPool\<close> holds its initial value: the routing loop at its
  \<open>select\<close>, ten workers at their \<open>range\<close>, every channel empty.
\<close>

definition consumer_ready :: "'b consumer_sys" where
  "consumer_ready =
     \<lparr>ConsumerCh = make_chan 1,
      BatchWorkerCh = make_chan 10,
      BatchSupplyCh = make_chan 100,
      ClientSupplyCh = make_chan 1,
      Workerline = 10,
      TerminateCh = make_chan 1,
      Quit = make_chan 1,
      router = R_Select,
      workers = replicate 10 W_Range,
      requests = [],
      started = G_ConsumerBatch # map G_WorkerFunc [0..<10],
      ctx_done = False,
      notified = True,
      waited = False,
      crashed = False,
      received = []\<rparr>"

text \<open>What a step hands to the consumer.\<close>

fun accepts :: "'b action \<Rightarrow> 'b multiset" where
  "accepts (Accept b) = {#b#}"
| "accepts a = {#}"

text \<open>
  A run in which a batch is stranded. The routing loop has received an earlier batch
  \<open>b1\<close> and is about to pass it on when the drain of \<open>Close\<close> hands the last
  batch \<open>b2\<close> to \<open>ConsumerFunc\<close> and \<open>StopConsumer\<close> sends on \<open>Quit\<close>.
  The loop passes \<open>b1\<close> on and comes back to its \<open>select\<close>, where both
  \<open>ConsumerCh\<close> and \<open>Quit\<close> are ready; it takes \<open>Quit\<close>.
\<close>

definition stranding_run :: "'b \<Rightarrow> 'b \<Rightarrow> 'b action list" where
  "stranding_run b1 b2 =
     [Accept b1, Route_Receive, Accept b2, Stop_Consumer, Route_Send, Route_Quit]"

text \<open>The consumer after that run.\<close>

definition lost_consumer :: "'b \<Rightarrow> 'b \<Rightarrow> 'b consumer_sys" where
  "lost_consumer b1 b2 =
     consumer_ready\<lparr>ConsumerCh := \<lparr>buf = [b2], cap = 1, closed = False\<rparr>,
                    BatchWorkerCh := \<lparr>buf = [b1], cap = 10, closed = True\<rparr>,
                    router := R_Returned\<rparr>"

text \<open>The run that then takes the batch in \<open>BatchWorkerCh\<close> to the client.\<close>

definition delivery_run :: "'b action list" where
  "delivery_run =
     [Worker_Claim 0, Request_Advertise 0, Worker_Pick 0, Handoff 0, Request_Supply 0,
      Client_Receive]"


text \<open>Batches for the examples.\<close>

definition earlier_batch :: "string iface batch" where
  "earlier_batch = [\<lparr>bi_Id = 1, bi_Item = Some ''a''\<rparr>]"

definition last_batch :: "string iface batch" where
  "last_batch = [\<lparr>bi_Id = 2, bi_Item = Some ''b''\<rparr>]"



fun panic_message :: "'s outcome \<Rightarrow> string option" where
  "panic_message (Panicked m s) = Some m"
| "panic_message (Continue s) = None"
| "panic_message (Blocked s) = None"
| "panic_message (Exited n s) = None"

section \<open>Concrete inputs\<close>

text \<open>
  A runtime with the bounds of a 64-bit platform for elements of 32 bytes, and a producer
  as \<open>NewBatchProducer\<close> might return it, for the examples below; the examples that
  depend on \<open>MaxItems\<close> or \<open>MaxWait\<close> set them with an option.
\<close>

definition example_runtime :: runtime where
  "example_runtime = \<lparr>max_slice_cap = 2 ^ 43, max_chan_cap = 2 ^ 43\<rparr>"

definition example_producer :: BatchProducer where
  "example_producer = \<lparr>MaxItems = 100, MaxWait = 30000000000\<rparr>"

definition fresh_globals :: "string iface globals" where
  "fresh_globals = package_init"

text \<open>The consumer that \<open>NewBatchConsumer\<close> returns when the program has just started.\<close>

definition fresh_consumer :: "string iface batch BatchConsumer" where
  "fresh_consumer = projr (NewBatchConsumer example_runtime fresh_globals)"

text \<open>
  A batch built with \<open>MaxItems = 7\<close> to which two items were submitted
  (\<open>k = 2\<close>, so \<open>MaxItems = k + 5\<close>), and its state once the first item has been
  flushed on the \<open>MaxWait\<close> trigger and the second has reached the producer and sits
  in \<open>items\<close>.
\<close>

definition example_batch :: "string iface Batch \<times> string iface globals" where
  "example_batch = projr (NewBatch example_runtime fresh_globals example_producer [WithMaxItems 7])"

definition quiet_batch :: "string iface closing" where
  "quiet_batch = closing_of (fst example_batch) ((snd example_batch)\<lparr>items := last_batch\<rparr>)"

text \<open>
  The call of \<open>NewBatch\<close> for a second batch of the same process, with
  \<open>MaxItems = 3\<close>, made while \<open>items\<close> holds the unflushed item of the first.
\<close>

definition second_batch :: "panic + string iface Batch \<times> string iface globals" where
  "second_batch =
     NewBatch example_runtime ((snd example_batch)\<lparr>items := last_batch\<rparr>) example_producer
       [WithMaxItems 3]"

text \<open>
  The call of \<open>NewBatch\<close> with \<open>MaxItems = 0\<close> and \<open>MaxWait = 0\<close> in a
  process that has set \<open>DefaultWorkerPool\<close> to 0, and the call with
  \<open>MaxItems = 1 << 62\<close>.
\<close>

definition zero_batch :: "panic + string iface Batch \<times> string iface globals" where
  "zero_batch =
     NewBatch example_runtime (fresh_globals\<lparr>DefaultWorkerPool := 0\<rparr>) example_producer
       [WithMaxItems 0, WithMaxWait 0]"

definition huge_batch :: "panic + string iface Batch \<times> string iface globals" where
  "huge_batch = NewBatch example_runtime fresh_globals example_producer [WithMaxItems (2 ^ 62)]"

text \<open>
  The call of \<open>NewBatch\<close> with no option at all, and the package-level variables after
  the program has then assigned \<open>DefaultWorkerPool = 4\<close>.
\<close>

definition plain_batch :: "panic + string iface Batch \<times> string iface globals" where
  "plain_batch = NewBatch example_runtime fresh_globals example_producer []"

definition pool_of_four :: "string iface globals" where
  "pool_of_four = (snd (projr plain_batch))\<lparr>DefaultWorkerPool := 4\<rparr>"

section \<open>Facts about sequencing\<close>

lemma and_then_Continue [simp]: "and_then (Continue s) f = f s"
  by (simp add: and_then_def)

lemma and_then_Blocked [simp]: "and_then (Blocked s) f = Blocked s"
  by (simp add: and_then_def)

lemma and_then_Exited [simp]: "and_then (Exited n s) f = Exited n s"
  by (simp add: and_then_def)

lemma and_then_Panicked [simp]: "and_then (Panicked m s) f = Panicked m s"
  by (simp add: and_then_def)

section \<open>Construction\<close>

lemma NewBatchConsumer_in_range:
  assumes "0 \<le> DefaultWorkerPool g" and "DefaultWorkerPool g \<le> int (max_chan_cap rt)"
  shows "NewBatchConsumer rt g =
     Inr \<lparr>ConsumerCh = make_chan 1,
          BatchWorkerCh = make_chan (nat (DefaultWorkerPool g)),
          BatchSupplyCh = make_chan 100,
          ClientSupplyCh = make_chan 1,
          Workerline = 0,
          TerminateCh = make_chan 1,
          Quit = make_chan 1\<rparr>"
  using assms by (simp add: NewBatchConsumer_def make_buffered_def)

lemma NewBatchConsumer_out_of_range:
  assumes "DefaultWorkerPool g < 0 \<or> int (max_chan_cap rt) < DefaultWorkerPool g"
  shows "NewBatchConsumer rt g = Inl (Panic ''makechan: size out of range'')"
  using assms by (simp add: NewBatchConsumer_def make_buffered_def)

lemma NewBatchConsumer_returned:
  assumes "NewBatchConsumer rt g = Inr c"
  shows "Workerline c = 0 \<and> cap (TerminateCh c) = 1
         \<and> cap (BatchWorkerCh c) = nat (DefaultWorkerPool g)"
  using assms
  by (auto simp add: NewBatchConsumer_def make_buffered_def make_chan_def split: if_splits)

lemma NewBatch_in_range:
  assumes "NewBatchConsumer rt g = Inr c"
    and "0 \<le> MaxItems (fst (apply_opts opts (p0, g)))"
    and "MaxItems (fst (apply_opts opts (p0, g))) \<le> int (max_slice_cap rt)"
  shows "NewBatch rt g p0 opts =
     Inr (\<lparr>Item = make_chan 0,
           Batch_Id = 0,
           Semaphore = NewSemaphore (go_int (MaxItems (fst (apply_opts opts (p0, g))))),
           Producer = fst (apply_opts opts (p0, g)),
           Consumer = c\<rparr>,
          (snd (apply_opts opts (p0, g)))
            \<lparr>items := [], items_cap := nat (MaxItems (fst (apply_opts opts (p0, g))))\<rparr>)"
  using assms by (simp add: NewBatch_def make_slice_def case_prod_beta)

lemma NewBatch_out_of_range:
  assumes "DefaultWorkerPool g < 0 \<or> int (max_chan_cap rt) < DefaultWorkerPool g
           \<or> MaxItems (fst (apply_opts opts (p0, g))) < 0
           \<or> int (max_slice_cap rt) < MaxItems (fst (apply_opts opts (p0, g)))"
  shows "\<exists>msg. NewBatch rt g p0 opts = Inl (Panic msg)"
proof (cases "DefaultWorkerPool g < 0 \<or> int (max_chan_cap rt) < DefaultWorkerPool g")
  case True
  then show ?thesis
    by (simp add: NewBatch_def NewBatchConsumer_out_of_range)
next
  case False
  then have slice: "MaxItems (fst (apply_opts opts (p0, g))) < 0
           \<or> int (max_slice_cap rt) < MaxItems (fst (apply_opts opts (p0, g)))"
    using assms by blast
  have "0 \<le> DefaultWorkerPool g" and "DefaultWorkerPool g \<le> int (max_chan_cap rt)"
    using False by auto
  from NewBatchConsumer_in_range [OF this]
  obtain c :: "'a batch BatchConsumer" where c: "NewBatchConsumer rt g = Inr c"
    by blast
  show ?thesis
    using c slice by (auto simp add: NewBatch_def make_slice_def case_prod_beta)
qed

lemma NewBatch_returned:
  assumes "NewBatch rt g p0 opts = Inr (b, g')"
  shows "Producer b = fst (apply_opts opts (p0, g))
         \<and> NewBatchConsumer rt g = Inr (Consumer b)
         \<and> g' = (snd (apply_opts opts (p0, g)))
                  \<lparr>items := [], items_cap := nat (MaxItems (fst (apply_opts opts (p0, g))))\<rparr>"
  using assms
  by (auto simp add: NewBatch_def make_slice_def case_prod_beta split: sum.splits if_splits)

lemma fresh_consumer_eq:
  "NewBatchConsumer example_runtime fresh_globals = Inr fresh_consumer"
  "fresh_consumer =
     \<lparr>ConsumerCh = make_chan 1,
      BatchWorkerCh = make_chan 10,
      BatchSupplyCh = make_chan 100,
      ClientSupplyCh = make_chan 1,
      Workerline = 0,
      TerminateCh = make_chan 1,
      Quit = make_chan 1\<rparr>"
  by (simp_all add: fresh_consumer_def NewBatchConsumer_in_range fresh_globals_def
      package_init_def example_runtime_def)

lemma apply_opts_WithMaxItems:
  "apply_opts [WithMaxItems n] (p0, g) = (p0\<lparr>MaxItems := n\<rparr>, g)"
  by (simp add: apply_opts_def WithMaxItems_def)

lemma example_batch_eq:
  "NewBatch example_runtime fresh_globals example_producer [WithMaxItems 7] = Inr example_batch"
  "example_batch =
     (\<lparr>Item = make_chan 0,
       Batch_Id = 0,
       Semaphore = NewSemaphore 7,
       Producer = example_producer\<lparr>MaxItems := 7\<rparr>,
       Consumer = fresh_consumer\<rparr>,
      fresh_globals\<lparr>items := [], items_cap := 7\<rparr>)"
proof -
  have "NewBatch example_runtime fresh_globals example_producer [WithMaxItems 7] =
     Inr (\<lparr>Item = make_chan 0,
           Batch_Id = 0,
           Semaphore = NewSemaphore 7,
           Producer = example_producer\<lparr>MaxItems := 7\<rparr>,
           Consumer = fresh_consumer\<rparr>,
          fresh_globals\<lparr>items := [], items_cap := 7\<rparr>)"
    using NewBatch_in_range [OF fresh_consumer_eq(1), of "[WithMaxItems 7]" example_producer]
    by (simp add: apply_opts_WithMaxItems example_runtime_def go_int_def)
  then show
    "NewBatch example_runtime fresh_globals example_producer [WithMaxItems 7] = Inr example_batch"
    "example_batch =
     (\<lparr>Item = make_chan 0,
       Batch_Id = 0,
       Semaphore = NewSemaphore 7,
       Producer = example_producer\<lparr>MaxItems := 7\<rparr>,
       Consumer = fresh_consumer\<rparr>,
      fresh_globals\<lparr>items := [], items_cap := 7\<rparr>)"
    by (simp_all add: example_batch_def)
qed

section \<open>Properties of Close\<close>

lemma Close_loop_not_returned: "\<not> returned (Close_loop n s)"
proof (induction n arbitrary: s)
  case 0
  show ?case by simp
next
  case (Suc n)
  show ?case
    by (simp add: Semaphore_Lock_def Stop_def close_Item_def Semaphore_Unlock_def Suc)
qed

lemma Close_loop_ConsumerCh:
  "cl_ConsumerCh (final_state (Close_loop n s)) = cl_ConsumerCh s"
proof (induction n arbitrary: s)
  case 0
  show ?case by simp
next
  case (Suc n)
  show ?case
    by (simp add: Semaphore_Lock_def Stop_def close_Item_def Semaphore_Unlock_def Suc
        log_Warn_def)
qed

lemma Close_loop_once:
  assumes "\<not> cl_Item_closed s" and "sem_can_lock (cl_Semaphore s)"
  shows "Close_loop (Suc 0) s =
           Blocked (s\<lparr>cl_log := cl_log s @ [(''Done'', length (cl_items s))],
                      cl_Semaphore := sem_unlock (sem_lock (cl_Semaphore s)),
                      cl_started := cl_started s @ [G_StopProducer, G_StopConsumer],
                      cl_Item_closed := True\<rparr>)"
  using assms
  by (simp add: Semaphore_Lock_def Stop_def close_Item_def Semaphore_Unlock_def log_Warn_def)

lemma Close_loop_closed:
  assumes "cl_Item_closed s" and "sem_can_lock (cl_Semaphore s)"
  shows "\<exists>s'. Close_loop (Suc n) s = Panicked ''close of closed channel'' s'"
  using assms
  by (simp add: Semaphore_Lock_def Stop_def close_Item_def Semaphore_Unlock_def log_Warn_def)

lemma Close_unfold:
  "Close drain s = Close_loop (snd (drain (Close_entry s))) (fst (drain (Close_entry s)))"
  by (simp add: Close_def split: prod.splits)

lemma Close_not_returned: "\<not> returned (Close drain s)"
  by (simp only: Close_unfold Close_loop_not_returned not_False_eq_True)

lemma Close_entry_fields:
  "cl_items (Close_entry s) = cl_items s"
  "cl_ConsumerCh (Close_entry s) = cl_ConsumerCh s"
  "cl_Item_closed (Close_entry s) = cl_Item_closed s"
  "cl_Semaphore (Close_entry s) = cl_Semaphore s"
  "cl_started (Close_entry s) = cl_started s @ [G_CheckRemainingItems]"
  by (simp_all add: Close_entry_def log_Warn_def Let_def)

lemma Close_blocks_after_close:
  assumes "snd (drain (Close_entry s)) = Suc 0"
    and "\<not> cl_Item_closed (fst (drain (Close_entry s)))"
    and "sem_can_lock (cl_Semaphore (fst (drain (Close_entry s))))"
  shows "\<exists>s'. Close drain s = Blocked s' \<and> cl_Item_closed s'
           \<and> cl_started s'
               = cl_started (fst (drain (Close_entry s))) @ [G_StopProducer, G_StopConsumer]"
proof -
  have "Close drain s = Close_loop (Suc 0) (fst (drain (Close_entry s)))"
    using assms(1) by (simp only: Close_unfold)
  with Close_loop_once [OF assms(2) assms(3)] show ?thesis
    by simp
qed

lemma Close_panics_when_closed:
  assumes "snd (drain (Close_entry s)) = Suc n"
    and "cl_Item_closed (fst (drain (Close_entry s)))"
    and "sem_can_lock (cl_Semaphore (fst (drain (Close_entry s))))"
  shows "\<exists>s'. Close drain s = Panicked ''close of closed channel'' s'"
proof -
  have "Close drain s = Close_loop (Suc n) (fst (drain (Close_entry s)))"
    using assms(1) by (simp only: Close_unfold)
  with Close_loop_closed [OF assms(2) assms(3), of n] show ?thesis
    by simp
qed

lemma CheckRemainingItems_signals:
  assumes "cl_items s = [] \<or> \<not> chan_full (cl_ConsumerCh s)"
  shows "snd (CheckRemainingItems s) = Suc 0
         \<and> cl_Item_closed (fst (CheckRemainingItems s)) = cl_Item_closed s
         \<and> cl_Semaphore (fst (CheckRemainingItems s)) = cl_Semaphore s
         \<and> cl_started (fst (CheckRemainingItems s)) = cl_started s"
  using assms by (auto simp add: CheckRemainingItems_def log_Warn_def Let_def)

lemma Close_flushes_nothing:
  assumes "cl_items s = []"
  shows "cl_ConsumerCh (final_state (Close CheckRemainingItems s)) = cl_ConsumerCh s"
proof -
  have "cl_ConsumerCh (final_state (Close CheckRemainingItems s))
          = cl_ConsumerCh (fst (CheckRemainingItems (Close_entry s)))"
    by (simp only: Close_unfold Close_loop_ConsumerCh)
  also have "\<dots> = cl_ConsumerCh s"
    using assms by (simp add: CheckRemainingItems_def Close_entry_def log_Warn_def Let_def)
  finally show ?thesis .
qed

lemma quiet_batch_eq:
  "quiet_batch =
     \<lparr>cl_items = last_batch,
      cl_ConsumerCh = \<lparr>buf = [], cap = 1, closed = False\<rparr>,
      cl_Item_closed = False,
      cl_Semaphore = \<lparr>permits = 7, held = 0\<rparr>,
      cl_started = [],
      cl_log = []\<rparr>"
  by (simp add: quiet_batch_def example_batch_eq(2) fresh_consumer_eq(2) closing_of_def
      make_chan_def NewSemaphore_def)

lemma quiet_batch_drained:
  "CheckRemainingItems (Close_entry quiet_batch) =
     (\<lparr>cl_items = [],
       cl_ConsumerCh = \<lparr>buf = [last_batch], cap = 1, closed = False\<rparr>,
       cl_Item_closed = False,
       cl_Semaphore = \<lparr>permits = 7, held = 0\<rparr>,
       cl_started = [G_CheckRemainingItems],
       cl_log = [(''Close'', 1), (''CheckRemainingItems'', 1)]\<rparr>, 1)"
  by (simp add: quiet_batch_eq last_batch_def CheckRemainingItems_def Close_entry_def
      log_Warn_def Let_def chan_full_def chan_push_def)

lemma Close_quiet_batch:
  "Close CheckRemainingItems quiet_batch =
     Blocked \<lparr>cl_items = [],
              cl_ConsumerCh = \<lparr>buf = [last_batch], cap = 1, closed = False\<rparr>,
              cl_Item_closed = True,
              cl_Semaphore = \<lparr>permits = 7, held = 0\<rparr>,
              cl_started = [G_CheckRemainingItems, G_StopProducer, G_StopConsumer],
              cl_log = [(''Close'', 1), (''CheckRemainingItems'', 1), (''Done'', 0)]\<rparr>"
  by (simp add: Close_unfold quiet_batch_drained sem_can_lock_def sem_lock_def
      sem_unlock_def Semaphore_Lock_def Stop_def close_Item_def Semaphore_Unlock_def
      log_Warn_def)

text \<open>
  Claim C9. \<open>Close\<close> never returns to its caller, whatever the drain goroutine does.
  When the drain goroutine signals \<open>done\<close> once and leaves \<open>b.Item\<close> open and a
  permit of the semaphore free, the signal is received, the branch starts
  \<open>StopProducer\<close> and \<open>StopConsumer\<close> and closes \<open>b.Item\<close>, and control comes
  back to the \<open>select\<close> on \<open>done\<close>, which nobody signals again: the call stays
  parked there.
\<close>

theorem Close_never_returns:
  "\<not> returned (Close drain s)
   \<and> (snd (drain (Close_entry s)) = 1
        \<and> \<not> cl_Item_closed (fst (drain (Close_entry s)))
        \<and> sem_can_lock (cl_Semaphore (fst (drain (Close_entry s))))
      \<longrightarrow> (\<exists>s'. Close drain s = Blocked s' \<and> cl_Item_closed s'
             \<and> cl_started s'
                 = cl_started (fst (drain (Close_entry s)))
                   @ [G_StopProducer, G_StopConsumer]))"
  using Close_not_returned [of drain s] Close_blocks_after_close [of drain s] by simp

theorem Close_never_returns_witness:
  "snd (CheckRemainingItems (Close_entry quiet_batch)) = 1
   \<and> \<not> cl_Item_closed (fst (CheckRemainingItems (Close_entry quiet_batch)))
   \<and> sem_can_lock (cl_Semaphore (fst (CheckRemainingItems (Close_entry quiet_batch))))
   \<and> \<not> returned (Close CheckRemainingItems quiet_batch)
   \<and> (\<exists>s'. Close CheckRemainingItems quiet_batch = Blocked s' \<and> cl_Item_closed s'
         \<and> cl_started s' = [G_CheckRemainingItems, G_StopProducer, G_StopConsumer])"
  using Close_never_returns [of CheckRemainingItems quiet_batch]
  by (simp add: quiet_batch_drained sem_can_lock_def)

text \<open>
  Claim C4. A second \<open>Close\<close> on the same \<open>Batch\<close> is not a no-op. The first
  call closes \<open>b.Item\<close> and parks; the second call runs the same branch, and its
  \<open>close(b.Item)\<close> panics with \<open>close of closed channel\<close>.
\<close>

theorem Close_twice_panics:
  "Close CheckRemainingItems quiet_batch
     = Blocked (final_state (Close CheckRemainingItems quiet_batch))
   \<and> cl_Item_closed (final_state (Close CheckRemainingItems quiet_batch))
   \<and> panic_message (Close CheckRemainingItems
         (final_state (Close CheckRemainingItems quiet_batch)))
       = Some ''close of closed channel''"
proof -
  let ?s1 = "final_state (Close CheckRemainingItems quiet_batch)"
  have s1: "Close CheckRemainingItems quiet_batch = Blocked ?s1" "cl_Item_closed ?s1"
    "cl_items ?s1 = []" "sem_can_lock (cl_Semaphore ?s1)"
    by (simp_all add: Close_quiet_batch sem_can_lock_def)
  have "snd (CheckRemainingItems (Close_entry ?s1)) = Suc 0
        \<and> cl_Item_closed (fst (CheckRemainingItems (Close_entry ?s1)))
        \<and> sem_can_lock (cl_Semaphore (fst (CheckRemainingItems (Close_entry ?s1))))"
    using CheckRemainingItems_signals [of "Close_entry ?s1"] s1
    by (simp add: Close_entry_fields)
  then obtain s2 where
    "Close CheckRemainingItems ?s1 = Panicked ''close of closed channel'' s2"
    using Close_panics_when_closed [of CheckRemainingItems ?s1 0] by blast
  then show ?thesis using s1 by simp
qed

section \<open>Properties of NewBatch\<close>

lemma second_batch_eq:
  "second_batch =
     Inr (\<lparr>Item = make_chan 0,
           Batch_Id = 0,
           Semaphore = NewSemaphore 3,
           Producer = example_producer\<lparr>MaxItems := 3\<rparr>,
           Consumer = fresh_consumer\<rparr>,
          fresh_globals\<lparr>items := [], items_cap := 3\<rparr>)"
proof -
  have g: "(snd example_batch)\<lparr>items := last_batch\<rparr>
             = fresh_globals\<lparr>items := last_batch, items_cap := 7\<rparr>"
    by (simp add: example_batch_eq(2))
  have c: "NewBatchConsumer example_runtime (fresh_globals\<lparr>items := last_batch, items_cap := 7\<rparr>)
             = Inr fresh_consumer"
    by (simp add: NewBatchConsumer_in_range fresh_consumer_eq(2) fresh_globals_def
        package_init_def example_runtime_def)
  show ?thesis
    using NewBatch_in_range [OF c, of "[WithMaxItems 3]" example_producer]
    by (simp add: second_batch_def g apply_opts_WithMaxItems example_runtime_def go_int_def)
qed

lemma zero_batch_eq:
  "zero_batch =
     Inr (\<lparr>Item = make_chan 0,
           Batch_Id = 0,
           Semaphore = NewSemaphore 0,
           Producer = \<lparr>MaxItems = 0, MaxWait = 0\<rparr>,
           Consumer = fresh_consumer\<lparr>BatchWorkerCh := make_chan 0\<rparr>\<rparr>,
          fresh_globals\<lparr>items := [], items_cap := 0, DefaultWorkerPool := 0\<rparr>)"
proof -
  have c: "NewBatchConsumer example_runtime (fresh_globals\<lparr>DefaultWorkerPool := 0\<rparr>)
             = Inr (fresh_consumer\<lparr>BatchWorkerCh := make_chan 0\<rparr>)"
    by (simp add: NewBatchConsumer_in_range fresh_consumer_eq(2))
  have o: "apply_opts [WithMaxItems 0, WithMaxWait 0]
             (example_producer, fresh_globals\<lparr>DefaultWorkerPool := 0\<rparr>)
           = (\<lparr>MaxItems = 0, MaxWait = 0\<rparr>, fresh_globals\<lparr>DefaultWorkerPool := 0\<rparr>)"
    by (simp add: apply_opts_def WithMaxItems_def WithMaxWait_def example_producer_def)
  show ?thesis
    using NewBatch_in_range [OF c, of "[WithMaxItems 0, WithMaxWait 0]" example_producer]
    by (simp add: zero_batch_def o go_int_def)
qed

text \<open>
  Claim C10. Whenever \<open>NewBatch\<close> returns, it has assigned a fresh empty slice,
  sized by the new configuration, to the package-level \<open>items\<close>, whatever an
  earlier instance had accumulated there: an earlier instance \<open>b1\<close> that closes
  afterwards finds no remaining item and flushes nothing to its consumer.
\<close>

theorem NewBatch_resets_items:
  assumes "NewBatch rt g p0 opts = Inr (b, g')"
  shows "items g' = []
   \<and> items_cap g' = nat (MaxItems (fst (apply_opts opts (p0, g))))
   \<and> MaxItems (Producer b) = MaxItems (fst (apply_opts opts (p0, g)))
   \<and> cl_items (closing_of b1 g') = []
   \<and> cl_ConsumerCh (final_state (Close CheckRemainingItems (closing_of b1 g')))
       = ConsumerCh (Consumer b1)"
proof -
  note r = NewBatch_returned [OF assms]
  have g': "items g' = []"
    "items_cap g' = nat (MaxItems (fst (apply_opts opts (p0, g))))"
    using r by simp_all
  have "cl_items (closing_of b1 g') = []"
    using g'(1) by (simp add: closing_of_def)
  from Close_flushes_nothing [OF this] show ?thesis
    using g' r by (simp add: closing_of_def)
qed

theorem NewBatch_resets_items_witness:
  "items ((snd example_batch)\<lparr>items := last_batch\<rparr>) = last_batch
   \<and> second_batch = Inr (projr second_batch)
   \<and> items (snd (projr second_batch)) = []
   \<and> items_cap (snd (projr second_batch)) = 3
   \<and> MaxItems (Producer (fst (projr second_batch))) = 3
   \<and> cl_items (closing_of (fst example_batch) (snd (projr second_batch))) = []
   \<and> cl_ConsumerCh (final_state (Close CheckRemainingItems
         (closing_of (fst example_batch) (snd (projr second_batch)))))
       = ConsumerCh (Consumer (fst example_batch))"
proof -
  have ret: "NewBatch example_runtime ((snd example_batch)\<lparr>items := last_batch\<rparr>)
               example_producer [WithMaxItems 3]
             = Inr (fst (projr second_batch), snd (projr second_batch))"
    by (simp add: second_batch_def [symmetric] second_batch_eq)
  have "nat (MaxItems (fst (apply_opts [WithMaxItems 3]
          (example_producer, (snd example_batch)\<lparr>items := last_batch\<rparr>)))) = 3"
    "MaxItems (fst (apply_opts [WithMaxItems 3]
          (example_producer, (snd example_batch)\<lparr>items := last_batch\<rparr>))) = 3"
    by (simp_all add: apply_opts_WithMaxItems)
  with NewBatch_resets_items [OF ret, of "fst example_batch"] show ?thesis
    by (simp add: second_batch_eq)
qed

text \<open>
  Claim C8, as amended. \<open>NewBatch\<close> has no error result and checks nothing. It
  returns a \<open>Batch\<close> holding exactly the producer the options leave, and
  \<open>StartBachProcessing\<close> starts its three goroutines on it, whenever the two
  capacities it allocates are in range: \<open>DefaultWorkerPool\<close> for the worker channel
  and \<open>MaxItems\<close> for \<open>items\<close>, each at least zero and at most what the
  runtime can allocate. Zero is in range, and \<open>MaxWait\<close> is not looked at. When a
  capacity is negative or too large, the call does not return: \<open>make\<close> panics.
\<close>

theorem NewBatch_checks_nothing:
  "(0 \<le> DefaultWorkerPool g \<and> DefaultWorkerPool g \<le> int (max_chan_cap rt)
      \<and> 0 \<le> MaxItems (fst (apply_opts opts (p0, g)))
      \<and> MaxItems (fst (apply_opts opts (p0, g))) \<le> int (max_slice_cap rt)
    \<longrightarrow> (\<exists>b g'. NewBatch rt g p0 opts = Inr (b, g')
           \<and> Producer b = fst (apply_opts opts (p0, g))
           \<and> StartBachProcessing b = [G_WatchProducer, G_StartConsumer, G_ReadItems]))
   \<and> (DefaultWorkerPool g < 0 \<or> int (max_chan_cap rt) < DefaultWorkerPool g
      \<or> MaxItems (fst (apply_opts opts (p0, g))) < 0
      \<or> int (max_slice_cap rt) < MaxItems (fst (apply_opts opts (p0, g)))
    \<longrightarrow> (\<exists>msg. NewBatch rt g p0 opts = Inl (Panic msg)))"
proof (intro conjI impI)
  assume a: "0 \<le> DefaultWorkerPool g \<and> DefaultWorkerPool g \<le> int (max_chan_cap rt)
      \<and> 0 \<le> MaxItems (fst (apply_opts opts (p0, g)))
      \<and> MaxItems (fst (apply_opts opts (p0, g))) \<le> int (max_slice_cap rt)"
  then obtain c :: "'a batch BatchConsumer" where c: "NewBatchConsumer rt g = Inr c"
    using NewBatchConsumer_in_range [of g rt] by blast
  from NewBatch_in_range [OF c, of opts p0] a
  show "\<exists>b g'. NewBatch rt g p0 opts = Inr (b, g')
           \<and> Producer b = fst (apply_opts opts (p0, g))
           \<and> StartBachProcessing b = [G_WatchProducer, G_StartConsumer, G_ReadItems]"
    by (simp add: StartBachProcessing_def)
next
  assume "DefaultWorkerPool g < 0 \<or> int (max_chan_cap rt) < DefaultWorkerPool g
      \<or> MaxItems (fst (apply_opts opts (p0, g))) < 0
      \<or> int (max_slice_cap rt) < MaxItems (fst (apply_opts opts (p0, g)))"
  then show "\<exists>msg. NewBatch rt g p0 opts = Inl (Panic msg)"
    by (rule NewBatch_out_of_range)
qed

theorem NewBatch_checks_nothing_witness:
  "DefaultWorkerPool (fresh_globals\<lparr>DefaultWorkerPool := 0\<rparr>) = 0
   \<and> fst (apply_opts [WithMaxItems 0, WithMaxWait 0]
          (example_producer, fresh_globals\<lparr>DefaultWorkerPool := 0\<rparr>))
       = \<lparr>MaxItems = 0, MaxWait = 0\<rparr>
   \<and> (\<exists>b g'. zero_batch = Inr (b, g')
         \<and> Producer b = \<lparr>MaxItems = 0, MaxWait = 0\<rparr>
         \<and> StartBachProcessing b = [G_WatchProducer, G_StartConsumer, G_ReadItems])
   \<and> int (max_slice_cap example_runtime)
       < MaxItems (fst (apply_opts [WithMaxItems (2 ^ 62)] (example_producer, fresh_globals)))
   \<and> (\<exists>msg. huge_batch = Inl (Panic msg))"
proof -
  have o: "fst (apply_opts [WithMaxItems 0, WithMaxWait 0]
          (example_producer, fresh_globals\<lparr>DefaultWorkerPool := 0\<rparr>))
       = \<lparr>MaxItems = 0, MaxWait = 0\<rparr>"
    by (simp add: apply_opts_def WithMaxItems_def WithMaxWait_def example_producer_def)
  have h: "int (max_slice_cap example_runtime)
       < MaxItems (fst (apply_opts [WithMaxItems (2 ^ 62)] (example_producer, fresh_globals)))"
    by (simp add: apply_opts_WithMaxItems example_runtime_def)
  have "\<exists>b g'. zero_batch = Inr (b, g')
         \<and> Producer b = \<lparr>MaxItems = 0, MaxWait = 0\<rparr>
         \<and> StartBachProcessing b = [G_WatchProducer, G_StartConsumer, G_ReadItems]"
    using NewBatch_checks_nothing [of "fresh_globals\<lparr>DefaultWorkerPool := 0\<rparr>"
        example_runtime "[WithMaxItems 0, WithMaxWait 0]" example_producer] o
    by (simp add: zero_batch_def)
  moreover have "\<exists>msg. huge_batch = Inl (Panic msg)"
    using NewBatch_checks_nothing [of fresh_globals example_runtime "[WithMaxItems (2 ^ 62)]"
        example_producer] h
    by (simp add: huge_batch_def)
  ultimately show ?thesis using o h by simp
qed

text \<open>
  Claim C8 as stated fails: with \<open>MaxItems = 0\<close> and \<open>MaxWait = 0\<close>, in a
  process whose \<open>DefaultWorkerPool\<close> is 0, construction reports nothing: it returns
  a \<open>Batch\<close> with these settings and an unbuffered worker channel, and the pipeline
  starts.
\<close>

theorem NewBatch_zero_config_starts:
  "\<not> isl zero_batch
   \<and> MaxItems (Producer (fst (projr zero_batch))) = 0
   \<and> MaxWait (Producer (fst (projr zero_batch))) = 0
   \<and> cap (BatchWorkerCh (Consumer (fst (projr zero_batch)))) = 0
   \<and> StartBachProcessing (fst (projr zero_batch))
       = [G_WatchProducer, G_StartConsumer, G_ReadItems]"
  by (simp add: zero_batch_eq StartBachProcessing_def make_chan_def)

section \<open>Properties of StartConsumer\<close>

lemma foldl_go_WorkerFunc:
  "foldl go_WorkerFunc s [0..<n] =
     s\<lparr>workers := workers s @ replicate n W_Range,
       started := started s @ map G_WorkerFunc [0..<n]\<rparr>"
proof (induction n)
  case 0
  then show ?case by simp
next
  case (Suc n)
  then show ?case
    by (simp add: go_WorkerFunc_def replicate_append_same)
qed

lemma StartConsumer_signal:
  assumes "0 \<le> wrap32 (Workerline s + DefaultWorkerPool g)" and "0 < cap (TerminateCh s)"
  shows "\<exists>s'. StartConsumer g (Some sig) s = Exited 0 s' \<and> ctx_done s' \<and> waited s' = waited s"
  using assms
  by (cases "buf (TerminateCh s)")
     (simp_all add: StartConsumer_def go_ConsumerBatch_def Workerline_Add_def spawn_workers_def
      foldl_go_WorkerFunc signal_Notify_def recv_TerminateCh_def deliver_def chan_full_def
      chan_push_def chan_pop_def cancel_def os_Exit_def Let_def)

lemma StartConsumer_workers:
  assumes "0 \<le> wrap32 (Workerline s + DefaultWorkerPool g)"
  shows "workers (final_state (StartConsumer g sig s))
           = workers s @ replicate (nat (DefaultWorkerPool g)) W_Range
     \<and> started (final_state (StartConsumer g sig s))
         = started s @ G_ConsumerBatch # map G_WorkerFunc [0..<nat (DefaultWorkerPool g)]"
  using assms
  by (cases sig; cases "buf (TerminateCh s)")
     (simp_all add: StartConsumer_def go_ConsumerBatch_def Workerline_Add_def spawn_workers_def
      foldl_go_WorkerFunc signal_Notify_def recv_TerminateCh_def deliver_def chan_full_def
      chan_push_def chan_pop_def cancel_def os_Exit_def Let_def)

lemma StartConsumer_negative_counter:
  assumes "wrap32 (Workerline s + DefaultWorkerPool g) < 0"
  shows "\<exists>s'. StartConsumer g sig s = Panicked ''sync: negative WaitGroup counter'' s'
              \<and> workers s' = workers s"
  using assms
  by (simp add: StartConsumer_def go_ConsumerBatch_def Workerline_Add_def)

lemma sys_of_fields:
  "Workerline (sys_of c) = Workerline c"
  "TerminateCh (sys_of c) = TerminateCh c"
  "workers (sys_of c) = []"
  "started (sys_of c) = []"
  "waited (sys_of c) = False"
  by (simp_all add: sys_of_def)

lemma wrap32_small: "0 \<le> n \<Longrightarrow> n < 2 ^ 31 \<Longrightarrow> wrap32 n = n"
  by (simp add: wrap32_def)

lemma plain_batch_eq:
  "plain_batch =
     Inr (\<lparr>Item = make_chan 0,
           Batch_Id = 0,
           Semaphore = NewSemaphore 100,
           Producer = example_producer,
           Consumer = fresh_consumer\<rparr>,
          fresh_globals\<lparr>items := [], items_cap := 100\<rparr>)"
  using NewBatch_in_range [OF fresh_consumer_eq(1), of "[]" example_producer]
  by (simp add: plain_batch_def apply_opts_def example_runtime_def example_producer_def
      go_int_def)

text \<open>
  Claim C6, as amended. When a termination signal arrives, \<open>StartConsumer\<close> cancels
  the context of the routing loop and then ends the process with \<open>os.Exit(0)\<close>; it
  does not come back to its caller. This holds for every value of
  \<open>DefaultWorkerPool\<close> that \<open>Workerline.Add\<close> accepts.
\<close>

theorem StartConsumer_exits_on_signal:
  assumes "0 \<le> wrap32 (Workerline s + DefaultWorkerPool g)" and "0 < cap (TerminateCh s)"
  shows "\<not> returned (StartConsumer g (Some sig) s)
         \<and> (\<exists>s'. StartConsumer g (Some sig) s = Exited 0 s' \<and> ctx_done s')"
  using StartConsumer_signal [OF assms, of sig] by auto

theorem StartConsumer_exits_on_signal_witness:
  "0 \<le> wrap32 (Workerline (sys_of fresh_consumer) + DefaultWorkerPool fresh_globals)
   \<and> 0 < cap (TerminateCh (sys_of fresh_consumer))
   \<and> \<not> returned (StartConsumer fresh_globals (Some SIGTERM) (sys_of fresh_consumer))
   \<and> (\<exists>s'. StartConsumer fresh_globals (Some SIGTERM) (sys_of fresh_consumer)
               = Exited 0 s' \<and> ctx_done s')"
proof -
  have h1: "0 \<le> wrap32 (Workerline (sys_of fresh_consumer) + DefaultWorkerPool fresh_globals)"
    by (simp add: sys_of_fields fresh_consumer_eq(2) fresh_globals_def package_init_def
        wrap32_small)
  have h2: "0 < cap (TerminateCh (sys_of fresh_consumer))"
    by (simp add: sys_of_fields fresh_consumer_eq(2) make_chan_def)
  from h1 h2 StartConsumer_exits_on_signal [OF h1 h2, of SIGTERM] show ?thesis
    by blast
qed

text \<open>
  Claim C6 as stated fails: on \<open>SIGTERM\<close> the call on a new consumer does not
  return, and \<open>Workerline.Wait()\<close> is not reached.
\<close>

theorem StartConsumer_does_not_return:
  "\<not> returned (StartConsumer fresh_globals (Some SIGTERM) (sys_of fresh_consumer))
   \<and> \<not> waited (final_state (StartConsumer fresh_globals (Some SIGTERM)
        (sys_of fresh_consumer)))"
proof -
  have h1: "0 \<le> wrap32 (Workerline (sys_of fresh_consumer) + DefaultWorkerPool fresh_globals)"
    by (simp add: sys_of_fields fresh_consumer_eq(2) fresh_globals_def package_init_def
        wrap32_small)
  have h2: "0 < cap (TerminateCh (sys_of fresh_consumer))"
    by (simp add: sys_of_fields fresh_consumer_eq(2) make_chan_def)
  from StartConsumer_signal [OF h1 h2, of SIGTERM] show ?thesis
    by (auto simp add: sys_of_fields)
qed

text \<open>
  Claim C7, as amended. \<open>StartConsumer\<close> starts exactly as many workers as the
  package-level variable \<open>DefaultWorkerPool\<close> holds while it runs, with the indices
  from 0 up to that number (none when the variable is zero), on whatever consumer it is
  called and whether or not a signal arrives; the variable holds 10 when the program
  starts. A value that makes the counter of \<open>Workerline\<close> negative ends the call in
  a panic before any worker is started.
\<close>

theorem StartConsumer_pool_size:
  "DefaultWorkerPool (package_init :: 'a globals) = 10
   \<and> (0 \<le> wrap32 (Workerline c + DefaultWorkerPool (g :: 'a globals))
      \<longrightarrow> workers (final_state (StartConsumer g sig (sys_of c)))
            = replicate (nat (DefaultWorkerPool g)) W_Range
          \<and> started (final_state (StartConsumer g sig (sys_of c)))
            = G_ConsumerBatch # map G_WorkerFunc [0..<nat (DefaultWorkerPool g)])
   \<and> (wrap32 (Workerline c + DefaultWorkerPool g) < 0
      \<longrightarrow> (\<exists>s'. StartConsumer g sig (sys_of c)
                   = Panicked ''sync: negative WaitGroup counter'' s'
               \<and> workers s' = []))"
  using StartConsumer_workers [of "sys_of c" g sig]
    StartConsumer_negative_counter [of "sys_of c" g sig]
  by (simp add: sys_of_fields package_init_def)

theorem StartConsumer_pool_size_witness:
  "0 \<le> wrap32 (Workerline fresh_consumer + DefaultWorkerPool fresh_globals)
   \<and> workers (final_state (StartConsumer fresh_globals None (sys_of fresh_consumer)))
       = replicate 10 W_Range
   \<and> started (final_state (StartConsumer fresh_globals None (sys_of fresh_consumer)))
       = G_ConsumerBatch # map G_WorkerFunc [0..<10]
   \<and> 0 \<le> wrap32 (Workerline fresh_consumer + DefaultWorkerPool pool_of_four)
   \<and> workers (final_state (StartConsumer pool_of_four None (sys_of fresh_consumer)))
       = replicate 4 W_Range
   \<and> wrap32 (Workerline fresh_consumer
         + DefaultWorkerPool (fresh_globals\<lparr>DefaultWorkerPool := - 1\<rparr>)) < 0
   \<and> (\<exists>s'. StartConsumer (fresh_globals\<lparr>DefaultWorkerPool := - 1\<rparr>) None
                 (sys_of fresh_consumer)
               = Panicked ''sync: negative WaitGroup counter'' s'
             \<and> workers s' = [])"
proof -
  have wl: "Workerline fresh_consumer = 0"
    by (simp add: fresh_consumer_eq(2))
  have w: "wrap32 10 = 10" "wrap32 4 = 4" "wrap32 (- 1) = - 1"
    by (simp_all add: wrap32_def)
  have p: "DefaultWorkerPool fresh_globals = 10" "DefaultWorkerPool pool_of_four = 4"
    by (simp_all add: fresh_globals_def package_init_def pool_of_four_def)
  have h: "0 \<le> wrap32 (Workerline fresh_consumer + DefaultWorkerPool fresh_globals)"
    "0 \<le> wrap32 (Workerline fresh_consumer + DefaultWorkerPool pool_of_four)"
    "wrap32 (Workerline fresh_consumer
         + DefaultWorkerPool (fresh_globals\<lparr>DefaultWorkerPool := - 1\<rparr>)) < 0"
    by (simp_all add: wl w p)
  have ten: "workers (final_state (StartConsumer fresh_globals None (sys_of fresh_consumer)))
       = replicate 10 W_Range
   \<and> started (final_state (StartConsumer fresh_globals None (sys_of fresh_consumer)))
       = G_ConsumerBatch # map G_WorkerFunc [0..<10]"
    using StartConsumer_pool_size [of fresh_consumer fresh_globals None] h(1)
    by (simp only: p) simp
  have four: "workers (final_state (StartConsumer pool_of_four None (sys_of fresh_consumer)))
       = replicate 4 W_Range"
    using StartConsumer_pool_size [of fresh_consumer pool_of_four None] h(2)
    by (simp only: p) simp
  have neg: "\<exists>s'. StartConsumer (fresh_globals\<lparr>DefaultWorkerPool := - 1\<rparr>) None
                 (sys_of fresh_consumer)
               = Panicked ''sync: negative WaitGroup counter'' s'
             \<and> workers s' = []"
    using StartConsumer_pool_size
      [of fresh_consumer "fresh_globals\<lparr>DefaultWorkerPool := - 1\<rparr>" None] h(3)
    by blast
  from h ten four neg show ?thesis
    by blast
qed

text \<open>
  Claim C7 as stated fails. A batch is built with no option set, while
  \<open>DefaultWorkerPool\<close> holds 10, so its worker channel has capacity 10; the program
  then assigns \<open>DefaultWorkerPool = 4\<close>. Started after that, the consumer of the
  batch gets 4 workers, not the documented default.
\<close>

theorem unset_pool_size_not_default:
  "\<not> isl plain_batch
   \<and> DefaultWorkerPool (snd (projr plain_batch)) = 10
   \<and> cap (BatchWorkerCh (Consumer (fst (projr plain_batch)))) = 10
   \<and> DefaultWorkerPool pool_of_four = 4
   \<and> length (workers (final_state
         (StartConsumer pool_of_four None (sys_of (Consumer (fst (projr plain_batch))))))) = 4"
proof -
  have h: "0 \<le> wrap32 (Workerline (sys_of fresh_consumer) + DefaultWorkerPool pool_of_four)"
    by (simp add: sys_of_fields fresh_consumer_eq(2) pool_of_four_def wrap32_small)
  from StartConsumer_workers [OF h, of None] show ?thesis
    by (simp add: plain_batch_eq pool_of_four_def sys_of_fields fresh_consumer_eq(2)
        fresh_globals_def package_init_def make_chan_def)
qed

section \<open>Properties of ReadItems\<close>






text \<open>
  Claim C2. Two items are submitted. Both are received, and \<open>b.Id\<close> is incremented
  twice, before the first forwarding goroutine builds its \<open>BatchItems\<close>: both tagged
  items then carry the identifier 2, and none carries 1.
\<close>

theorem ReadItems_duplicate_Id:
  "run_ingest [Receive, Receive, Evaluate 0, Evaluate 1, Send 0, Send 1]
       (ingest_init [Some ''a'', Some ''b''])
     = Some \<lparr>offered = [], ri_Item_closed = False, ri_Id = 2,
             forwarders = [F_Done, F_Done],
             Watcher_received = [\<lparr>bi_Id = 2, bi_Item = Some ''a''\<rparr>,
                                 \<lparr>bi_Id = 2, bi_Item = Some ''b''\<rparr>]\<rparr>"
  by (simp add: ingest_init_def go_forward_def next_Id_def)




section \<open>Properties of the consumer\<close>

lemma sum_list_update_holds:
  fixes f :: "'x \<Rightarrow> 'b multiset"
  shows "i < length xs \<Longrightarrow>
    sum_list (map f (xs[i := y])) + f (xs ! i) = sum_list (map f xs) + f y"
proof (induction xs arbitrary: i)
  case Nil
  then show ?case by simp
next
  case (Cons x xs)
  show ?case
  proof (cases i)
    case 0
    then show ?thesis by (simp add: add.commute add.left_commute)
  next
    case (Suc j)
    then have "j < length xs" using Cons.prems by simp
    from Cons.IH [OF this] Suc show ?thesis
      by (simp add: add.assoc)
  qed
qed

lemma holds_update_empty:
  fixes f :: "'x \<Rightarrow> 'b multiset"
  assumes "i < length xs" and "f (xs ! i) = {#}"
  shows "sum_list (map f (xs[i := y])) = sum_list (map f xs) + f y"
  using sum_list_update_holds [OF assms(1), of f y] assms(2) by simp

lemma holds_update_release:
  fixes f :: "'x \<Rightarrow> 'b multiset"
  assumes "i < length xs" and "f y = {#}"
  shows "sum_list (map f (xs[i := y])) + f (xs ! i) = sum_list (map f xs)"
  using sum_list_update_holds [OF assms(1), of f y] assms(2) by simp

lemma holds_update_same:
  fixes f :: "'x \<Rightarrow> 'b multiset"
  assumes "i < length xs" and "f y = f (xs ! i)"
  shows "sum_list (map f (xs[i := y])) = sum_list (map f xs)"
  using sum_list_update_holds [OF assms(1), of f y] assms(2) by simp

lemma close_BatchWorkerCh_in_flight:
  "router s = R_Select \<Longrightarrow> in_flight (close_BatchWorkerCh s) = in_flight s"
  by (simp add: close_BatchWorkerCh_def in_flight_def chan_close_def)

lemma consumer_action_in_flight:
  assumes "consumer_action a s = Some s'" and "\<not> crashed s"
  shows "in_flight s' = in_flight s + (if crashed s' then {#} else accepts a)"
proof (cases a)
  case (Accept b)
  then show ?thesis using assms
    by (auto simp add: in_flight_def chan_push_def split: if_splits)
next
  case Route_Receive
  then show ?thesis using assms
    by (auto simp add: in_flight_def chan_pop_def split: router_pc.splits list.splits)
next
  case Route_Send
  then show ?thesis using assms
    by (auto simp add: in_flight_def chan_push_def split: router_pc.splits if_splits)
next
  case Cancel
  then show ?thesis using assms by (auto simp add: in_flight_def)
next
  case Route_Cancel
  then show ?thesis using assms
    by (auto simp add: close_BatchWorkerCh_in_flight split: router_pc.splits if_splits)
next
  case Stop_Consumer
  then show ?thesis using assms by (auto simp add: in_flight_def split: if_splits)
next
  case Route_Quit
  then show ?thesis using assms
    by (auto simp add: close_BatchWorkerCh_def chan_close_def in_flight_def
        split: router_pc.splits list.splits)
next
  case (Worker_Claim w)
  then show ?thesis using assms
    by (auto simp add: in_flight_def chan_pop_def holds_update_empty
        split: if_splits worker_pc.splits list.splits)
next
  case (Worker_Exit w)
  then show ?thesis using assms
    by (auto simp add: in_flight_def holds_update_same
        split: if_splits worker_pc.splits list.splits)
next
  case (Request_Advertise r)
  then show ?thesis using assms
    by (auto simp add: in_flight_def holds_update_same chan_push_def
        split: if_splits request_pc.splits)
next
  case (Worker_Pick w)
  then show ?thesis using assms
    by (auto simp add: in_flight_def holds_update_same chan_pop_def
        split: if_splits worker_pc.splits list.splits)
next
  case (Handoff w)
  show ?thesis
  proof (cases "workers s ! w")
    case (W_Offer r b)
    with Handoff assms have w: "w < length (workers s)" and r: "r < length (requests s)"
      and q: "requests s ! r = Q_Await"
      and s': "s' = s\<lparr>workers := (workers s)[w := W_Range],
                         requests := (requests s)[r := Q_Forward b]\<rparr>"
      by (auto split: if_splits request_pc.splits)
    have "sum_list (map worker_holds ((workers s)[w := W_Range])) + {#b#}
            = sum_list (map worker_holds (workers s))"
      using holds_update_release [OF w, of worker_holds W_Range] W_Offer by simp
    moreover have "sum_list (map request_holds ((requests s)[r := Q_Forward b]))
            = sum_list (map request_holds (requests s)) + {#b#}"
      using holds_update_empty [OF r, of request_holds "Q_Forward b"] q by simp
    ultimately show ?thesis
      using s' Handoff assms(2) by (simp add: in_flight_def)
  qed (use Handoff assms in \<open>auto split: if_splits\<close>)
next
  case (Request_Supply r)
  show ?thesis
  proof (cases "requests s ! r")
    case (Q_Forward b)
    with Request_Supply assms have r: "r < length (requests s)"
      and s': "s' = s\<lparr>ClientSupplyCh := chan_push b (ClientSupplyCh s),
                         requests := (requests s)[r := Q_Done]\<rparr>"
      by (auto split: if_splits)
    have "sum_list (map request_holds ((requests s)[r := Q_Done])) + {#b#}
            = sum_list (map request_holds (requests s))"
      using holds_update_release [OF r, of request_holds Q_Done] Q_Forward by simp
    then show ?thesis
      using s' Request_Supply assms(2) by (simp add: in_flight_def chan_push_def)
  qed (use Request_Supply assms in \<open>auto split: if_splits\<close>)
next
  case Client_Receive
  then show ?thesis using assms
    by (auto simp add: in_flight_def chan_pop_def split: list.splits)
qed











lemma StartConsumer_leaves_consumer_ready:
  "final_state (StartConsumer fresh_globals None (sys_of fresh_consumer)) = consumer_ready"
  by (simp add: StartConsumer_def go_ConsumerBatch_def Workerline_Add_def spawn_workers_def
      foldl_go_WorkerFunc signal_Notify_def recv_TerminateCh_def deliver_def
      sys_of_def fresh_consumer_eq(2) make_chan_def fresh_globals_def package_init_def
      wrap32_def consumer_ready_def Let_def)

lemma replicate_10: "replicate 10 x = [x, x, x, x, x, x, x, x, x, x]"
  by (simp add: eval_nat_numeral)


lemma in_flight_downstream:
  "in_flight s = mset (buf (ConsumerCh s)) + router_holds (router s) + downstream s"
  by (simp add: in_flight_def downstream_def add.assoc)






lemma returned_action_upstream:
  assumes "consumer_action a s = Some s'" and "router s = R_Returned" and "\<not> crashed s"
  shows "router s' = R_Returned
         \<and> mset (buf (ConsumerCh s'))
             = mset (buf (ConsumerCh s)) + (if crashed s' then {#} else accepts a)"
  using assms
  by (cases a)
     (auto simp add: chan_push_def
       split: if_splits list.splits worker_pc.splits request_pc.splits)

lemma returned_step_downstream:
  assumes "consumer_step a s = Some s'" and "router s = R_Returned"
  shows "router s' = R_Returned \<and> downstream s' = downstream s"
proof -
  have nc: "\<not> crashed s" and act: "consumer_action a s = Some s'"
    using assms(1) by (simp_all add: consumer_step_def split: if_splits)
  note up = returned_action_upstream [OF act assms(2) nc]
  have "in_flight s' = in_flight s + (if crashed s' then {#} else accepts a)"
    using consumer_action_in_flight [OF act nc] .
  then have "mset (buf (ConsumerCh s)) + (if crashed s' then {#} else accepts a)
               + downstream s'
             = mset (buf (ConsumerCh s)) + (if crashed s' then {#} else accepts a)
               + downstream s"
    using up assms(2) by (simp add: in_flight_downstream add.assoc add.left_commute)
  then show ?thesis using up by simp
qed

lemma returned_run_downstream:
  "run_consumer sched s = Some s' \<Longrightarrow> router s = R_Returned \<Longrightarrow> downstream s' = downstream s"
proof (induction sched arbitrary: s)
  case Nil
  then show ?case by simp
next
  case (Cons a as)
  then obtain t where t: "consumer_step a s = Some t" and r: "run_consumer as t = Some s'"
    by (auto split: option.splits)
  from returned_step_downstream [OF t Cons.prems(2)] Cons.IH [OF r] show ?case
    by simp
qed

lemma received_in_downstream: "set (received s) \<subseteq> set_mset (downstream s)"
  by (auto simp add: downstream_def)

lemma run_to_lost_consumer:
  "run_consumer (stranding_run b1 b2) consumer_ready = Some (lost_consumer b1 b2)"
  by (simp add: stranding_run_def lost_consumer_def consumer_ready_def consumer_step_def
      make_chan_def chan_full_def chan_push_def chan_pop_def close_BatchWorkerCh_def
      chan_close_def)

lemma downstream_lost_consumer: "downstream (lost_consumer b1 b2) = {#b1#}"
  by (simp add: downstream_def lost_consumer_def consumer_ready_def make_chan_def replicate_10)

lemma delivery_run_result:
  "run_consumer delivery_run (lost_consumer b1 b2)
     = Some ((lost_consumer b1 b2)
          \<lparr>BatchWorkerCh := \<lparr>buf = [], cap = 10, closed = True\<rparr>,
           requests := [Q_Done], received := [b1]\<rparr>)"
  by (simp add: delivery_run_def lost_consumer_def consumer_ready_def consumer_step_def
      make_chan_def chan_full_def chan_push_def chan_pop_def replicate_10)


text \<open>
  Claim C1. Two items were submitted with \<open>MaxItems = 7\<close>. The first was flushed
  earlier on the \<open>MaxWait\<close> trigger; the second sits in \<open>items\<close> when
  \<open>Close\<close> is called. The routing loop has received the earlier batch and has not
  yet passed it on. The drain hands the last batch to \<open>ConsumerFunc\<close>, which puts it
  into \<open>ConsumerCh\<close>, and \<open>Stop\<close> starts \<open>StopConsumer\<close>, which sends on
  \<open>Quit\<close>. The routing loop passes the earlier batch on and comes back to its
  \<open>select\<close> with two ready cases; when it takes \<open>Quit\<close>, it closes
  \<open>BatchWorkerCh\<close> and returns with the last batch still in \<open>ConsumerCh\<close>. From
  there no run delivers the last batch to the client.
\<close>

theorem drained_batch_stranded:
  "buf (cl_ConsumerCh (final_state (Close CheckRemainingItems quiet_batch))) = [last_batch]
   \<and> cl_started (final_state (Close CheckRemainingItems quiet_batch))
       = [G_CheckRemainingItems, G_StopProducer, G_StopConsumer]
   \<and> run_consumer (stranding_run earlier_batch last_batch) consumer_ready
       = Some (lost_consumer earlier_batch last_batch)
   \<and> buf (ConsumerCh (lost_consumer earlier_batch last_batch)) = [last_batch]
   \<and> router (lost_consumer earlier_batch last_batch) = R_Returned
   \<and> (\<forall>sched s. run_consumer sched (lost_consumer earlier_batch last_batch) = Some s
         \<longrightarrow> last_batch \<notin> set (received s))"
proof -
  have "buf (cl_ConsumerCh (final_state (Close CheckRemainingItems quiet_batch)))
          = [last_batch]
    \<and> cl_started (final_state (Close CheckRemainingItems quiet_batch))
       = [G_CheckRemainingItems, G_StopProducer, G_StopConsumer]"
    by (simp add: Close_quiet_batch)
  moreover have ret: "router (lost_consumer earlier_batch last_batch) = R_Returned"
    by (simp add: lost_consumer_def)
  moreover have "last_batch \<notin> set (received s)"
    if "run_consumer sched (lost_consumer earlier_batch last_batch) = Some s" for sched s
  proof -
    have "downstream s = {#earlier_batch#}"
      using returned_run_downstream [OF that ret] by (simp add: downstream_lost_consumer)
    then have "set (received s) \<subseteq> {earlier_batch}"
      using received_in_downstream [of s] by simp
    moreover have "last_batch \<noteq> earlier_batch"
      by (simp add: last_batch_def earlier_batch_def)
    ultimately show ?thesis by auto
  qed
  moreover have "buf (ConsumerCh (lost_consumer earlier_batch last_batch)) = [last_batch]"
    by (simp add: lost_consumer_def)
  ultimately show ?thesis
    using run_to_lost_consumer [of earlier_batch last_batch] by blast
qed

theorem drained_batch_stranded_witness:
  "run_consumer delivery_run (lost_consumer earlier_batch last_batch)
     = Some ((lost_consumer earlier_batch last_batch)
          \<lparr>BatchWorkerCh := \<lparr>buf = [], cap = 10, closed = True\<rparr>,
           requests := [Q_Done], received := [earlier_batch]\<rparr>)
   \<and> last_batch \<notin> set (received ((lost_consumer earlier_batch last_batch)
          \<lparr>BatchWorkerCh := \<lparr>buf = [], cap = 10, closed = True\<rparr>,
           requests := [Q_Done], received := [earlier_batch]\<rparr>))"
  using drained_batch_stranded delivery_run_result [of earlier_batch last_batch]
  by blast

end
